theory Spec2Isabelle
  imports Main "HOL-Library.Word"
begin

unbundle bit_operations_syntax

section \<open>The MDI client window of the main frame (\<open>CMainFrame::CMDIClient\<close>)\<close>

text \<open>
  \<open>Src/MainFrm.h\<close> declares the main frame of the application. The one function the header
  defines in full is \<open>CMDIClient::WindowProc\<close>, the window procedure of the MDI client
  area: it switches the redrawing of the client area off while a child window is created or
  activated and switches it on again when a timer fires.

  The integer types are those of the Windows headers: \<open>UINT\<close> is 32 bits wide,
  \<open>WPARAM\<close>, \<open>LPARAM\<close>, \<open>LRESULT\<close> and \<open>UINT_PTR\<close> are pointer sized
  (64 bits here), \<open>BOOL\<close> is a 32-bit \<open>int\<close> that counts as true when it is not zero.
\<close>

type_synonym UINT = "32 word"
type_synonym BOOL = "32 word"
type_synonym UINT_PTR = "64 word"
type_synonym WPARAM = "64 word"
type_synonym LPARAM = "64 word"
type_synonym LRESULT = "64 word"
type_synonym HWND = "64 word"

text \<open>
  The message numbers and flag values are macros of the Windows SDK and of MFC; the header
  uses them by name only. They are given the values of \<open>winuser.h\<close> and \<open>afxwin.h\<close>.
\<close>

definition WM_TIMER :: UINT where "WM_TIMER = 0x0113"
definition WM_MDICREATE :: UINT where "WM_MDICREATE = 0x0220"
definition WM_MDIACTIVATE :: UINT where "WM_MDIACTIVATE = 0x0222"
definition WM_MDIGETACTIVE :: UINT where "WM_MDIGETACTIVE = 0x0229"
definition WM_MDISETMENU :: UINT where "WM_MDISETMENU = 0x0230"
definition USER_TIMER_MINIMUM :: UINT where "USER_TIMER_MINIMUM = 0x0000000A"
definition RDW_INVALIDATE :: UINT where "RDW_INVALIDATE = 0x0001"
definition RDW_ALLCHILDREN :: UINT where "RDW_ALLCHILDREN = 0x0080"
definition AFX_MBS_HIDDEN :: UINT where "AFX_MBS_HIDDEN = 0x02"
definition TRUE :: LRESULT where "TRUE = 1"

text \<open>\<open>static UINT_PTR const m_nRedrawTimer = 1612;\<close>\<close>

definition m_nRedrawTimer :: UINT_PTR where "m_nRedrawTimer = 1612"

text \<open>
  The window procedure works through calls into the toolkit. Each call is recorded, in the
  order the code makes it, together with the two pieces of window state the calls change:
  the redraw flag of the window (\<open>SetRedraw\<close>) and the set of its running timers
  (\<open>SetTimer\<close>, \<open>KillTimer\<close>).
\<close>

datatype toolkit_call =
    Call_SendMessage UINT WPARAM
  | Call_SetTimer UINT_PTR UINT
  | Call_KillTimer UINT_PTR
  | Call_SetRedraw bool
  | Call_RedrawWindow UINT
  | Call_SetMenuBarState UINT
  | Call_AttachMenu WPARAM
  | Call_CWnd_WindowProc UINT WPARAM LPARAM

record mdi_client =
  redraw_enabled :: bool
  timers :: "UINT_PTR set"
  calls :: "toolkit_call list"

text \<open>
  What the toolkit answers during one run of the window procedure: the window handle and the
  maximized flag that \<open>WM_MDIGETACTIVE\<close> reports, the result of \<open>SetTimer\<close> (zero when
  the timer could not be created) and the result of the base class's window procedure.
\<close>

record toolkit_env =
  hwndActive :: HWND
  bMaximized :: BOOL
  SetTimer_result :: UINT_PTR
  base_result :: LRESULT

definition log_call :: "toolkit_call \<Rightarrow> mdi_client \<Rightarrow> mdi_client" where
  "log_call c w = w\<lparr>calls := calls w @ [c]\<rparr>"

definition do_SendMessage :: "UINT \<Rightarrow> WPARAM \<Rightarrow> mdi_client \<Rightarrow> mdi_client" where
  "do_SendMessage msg wp w = log_call (Call_SendMessage msg wp) w"

text \<open>A timer that could not be created leaves the timers of the window as they were.\<close>

definition do_SetTimer ::
  "toolkit_env \<Rightarrow> UINT_PTR \<Rightarrow> UINT \<Rightarrow> mdi_client \<Rightarrow> UINT_PTR \<times> mdi_client" where
  "do_SetTimer e ident elapse w =
     (SetTimer_result e,
      log_call (Call_SetTimer ident elapse)
        (w\<lparr>timers := (if SetTimer_result e \<noteq> 0 then insert ident (timers w) else timers w)\<rparr>))"

definition do_KillTimer :: "UINT_PTR \<Rightarrow> mdi_client \<Rightarrow> mdi_client" where
  "do_KillTimer ident w = log_call (Call_KillTimer ident) (w\<lparr>timers := timers w - {ident}\<rparr>)"

definition do_SetRedraw :: "bool \<Rightarrow> mdi_client \<Rightarrow> mdi_client" where
  "do_SetRedraw b w = log_call (Call_SetRedraw b) (w\<lparr>redraw_enabled := b\<rparr>)"

definition do_RedrawWindow :: "UINT \<Rightarrow> mdi_client \<Rightarrow> mdi_client" where
  "do_RedrawWindow flags w = log_call (Call_RedrawWindow flags) w"

definition do_SetMenuBarState :: "UINT \<Rightarrow> mdi_client \<Rightarrow> mdi_client" where
  "do_SetMenuBarState s w = log_call (Call_SetMenuBarState s) w"

definition do_AttachMenu :: "WPARAM \<Rightarrow> mdi_client \<Rightarrow> mdi_client" where
  "do_AttachMenu h w = log_call (Call_AttachMenu h) w"

definition CWnd_WindowProc ::
  "toolkit_env \<Rightarrow> UINT \<Rightarrow> WPARAM \<Rightarrow> LPARAM \<Rightarrow> mdi_client \<Rightarrow> LRESULT \<times> mdi_client" where
  "CWnd_WindowProc e message wParam lParam w =
     (base_result e, log_call (Call_CWnd_WindowProc message wParam lParam) w)"

text \<open>
  \<open>CMDIClient::WindowProc\<close>, branch by branch. In the first branch \<open>SetTimer\<close> is the
  right operand of \<open>&&\<close>: it is called only when the left operand holds, and
  \<open>SetRedraw(FALSE)\<close> only when it returned a value other than zero. The
  \<open>WM_MDISETMENU\<close> branch returns \<open>TRUE\<close> without calling the base class; every other
  branch ends in \<open>CWnd::WindowProc\<close>.
\<close>

definition WindowProc ::
  "toolkit_env \<Rightarrow> UINT \<Rightarrow> WPARAM \<Rightarrow> LPARAM \<Rightarrow> mdi_client \<Rightarrow> LRESULT \<times> mdi_client" where
  "WindowProc e message wParam lParam w =
     (if message = WM_MDICREATE \<or> message = WM_MDIACTIVATE then
        let w1 = do_SendMessage WM_MDIGETACTIVE 0 w;
            w2 = (if bMaximized e \<noteq> 0 \<or> (message = WM_MDICREATE \<and> hwndActive e = 0)
                  then (case do_SetTimer e m_nRedrawTimer USER_TIMER_MINIMUM w1 of
                          (r, w') \<Rightarrow> if r \<noteq> 0 then do_SetRedraw False w' else w')
                  else w1)
        in CWnd_WindowProc e message wParam lParam w2
      else if message = WM_MDISETMENU then
        (TRUE, do_AttachMenu wParam (do_SetMenuBarState AFX_MBS_HIDDEN w))
      else if message = WM_TIMER then
        CWnd_WindowProc e message wParam lParam
          (if wParam = m_nRedrawTimer
           then do_RedrawWindow (RDW_ALLCHILDREN OR RDW_INVALIDATE)
                  (do_SetRedraw True (do_KillTimer m_nRedrawTimer w))
           else w)
      else CWnd_WindowProc e message wParam lParam w)"

text \<open>
  The message loop delivers one message after the other to the window procedure; each
  delivery comes with the answers the toolkit gives during it.
\<close>

type_synonym delivery = "toolkit_env \<times> UINT \<times> WPARAM \<times> LPARAM"

fun deliver :: "delivery list \<Rightarrow> mdi_client \<Rightarrow> mdi_client" where
  "deliver [] w = w"
| "deliver ((e, message, wParam, lParam) # ds) w =
     deliver ds (snd (WindowProc e message wParam lParam w))"

text \<open>A freshly created window redraws itself and has no timer.\<close>

definition new_client :: mdi_client where
  "new_client = \<lparr>redraw_enabled = True, timers = {}, calls = []\<rparr>"

text \<open>Redrawing is switched off only while the redraw timer is running.\<close>

definition redraw_guarded :: "mdi_client \<Rightarrow> bool" where
  "redraw_guarded w = (redraw_enabled w \<or> m_nRedrawTimer \<in> timers w)"

text \<open>The calls one run of the window procedure adds to the record.\<close>

definition calls_made ::
  "toolkit_env \<Rightarrow> UINT \<Rightarrow> WPARAM \<Rightarrow> LPARAM \<Rightarrow> mdi_client \<Rightarrow> toolkit_call list" where
  "calls_made e message wParam lParam w =
     drop (length (calls w)) (calls (snd (WindowProc e message wParam lParam w)))"

text \<open>
  An example of the toolkit's answers: a child window is active and maximized, and the
  timer can be created.
\<close>

definition maximized_env :: toolkit_env where
  "maximized_env =
     \<lparr>hwndActive = 0x50A12, bMaximized = 1, SetTimer_result = 1612, base_result = 0\<rparr>"

section \<open>The \<open>OpenFileParams\<close> family\<close>

text \<open>
  \<open>CMainFrame\<close> declares eight parameter bundles for the open operations. Each is a
  \<open>struct\<close> with a virtual destructor; every base is public and none is virtual, so an
  object holds one base subobject for each way of reaching a base.
\<close>

datatype struct_name =
    OpenFileParams
  | OpenTextFileParams
  | OpenTableFileParams
  | OpenBinaryFileParams
  | OpenImageFileParams
  | OpenWebPageParams
  | OpenAutoFileParams
  | OpenFolderParams

text \<open>
  The types of the data members (\<open>tchar_t\<close> and \<open>String\<close> are declared outside the
  header: a character and a string of characters) and their values. An \<open>int\<close> is 32 bits
  wide; a scalar without an initializer has an indeterminate value.
\<close>

datatype cpp_type = T_int | T_bool | T_tchar | T_String | T_optional cpp_type | T_vector cpp_type

datatype cpp_value =
    V_indeterminate
  | V_int "32 word"
  | V_bool bool
  | V_tchar char
  | V_String string
  | V_optional "cpp_value option"
  | V_vector "cpp_value list"

text \<open>A data member: its name, its type and its default member initializer, if it has one.\<close>

type_synonym member_decl = "string \<times> cpp_type \<times> cpp_value option"

text \<open>The direct bases of each struct, in the order of its base list.\<close>

fun bases :: "struct_name \<Rightarrow> struct_name list" where
  "bases OpenFileParams = []"
| "bases OpenTextFileParams = [OpenFileParams]"
| "bases OpenTableFileParams = [OpenTextFileParams]"
| "bases OpenBinaryFileParams = [OpenFileParams]"
| "bases OpenImageFileParams = [OpenFileParams]"
| "bases OpenWebPageParams = [OpenFileParams]"
| "bases OpenAutoFileParams = [OpenTableFileParams, OpenBinaryFileParams, OpenImageFileParams]"
| "bases OpenFolderParams = [OpenFileParams]"

text \<open>The data members each struct declares itself, in the order of declaration.\<close>

fun data_members :: "struct_name \<Rightarrow> member_decl list" where
  "data_members OpenFileParams = []"
| "data_members OpenTextFileParams =
     [(''m_line'', T_int, Some (V_int (- 1))),
      (''m_char'', T_int, Some (V_int (- 1))),
      (''m_fileExt'', T_String, None),
      (''m_strSaveAsPath'', T_String, None)]"
| "data_members OpenTableFileParams =
     [(''m_tableDelimiter'', T_optional T_tchar, None),
      (''m_tableQuote'', T_optional T_tchar, None),
      (''m_tableAllowNewlinesInQuotes'', T_optional T_bool, None)]"
| "data_members OpenBinaryFileParams =
     [(''m_address'', T_int, Some (V_int (- 1))),
      (''m_strSaveAsPath'', T_String, None)]"
| "data_members OpenImageFileParams =
     [(''m_x'', T_int, Some (V_int (- 1))),
      (''m_y'', T_int, Some (V_int (- 1))),
      (''m_strSaveAsPath'', T_String, None)]"
| "data_members OpenWebPageParams = []"
| "data_members OpenAutoFileParams = []"
| "data_members OpenFolderParams = [(''m_hiddenItems'', T_vector T_String, None)]"

text \<open>Every struct of the family declares \<open>virtual ~S() {}\<close>.\<close>

fun has_virtual_destructor :: "struct_name \<Rightarrow> bool" where
  "has_virtual_destructor OpenFileParams = True"
| "has_virtual_destructor OpenTextFileParams = True"
| "has_virtual_destructor OpenTableFileParams = True"
| "has_virtual_destructor OpenBinaryFileParams = True"
| "has_virtual_destructor OpenImageFileParams = True"
| "has_virtual_destructor OpenWebPageParams = True"
| "has_virtual_destructor OpenAutoFileParams = True"
| "has_virtual_destructor OpenFolderParams = True"

text \<open>
  The hierarchy has no cycle: every base lies strictly below the struct that names it. The
  recursions over the hierarchy terminate by this rank.
\<close>

fun rank :: "struct_name \<Rightarrow> nat" where
  "rank OpenFileParams = 0"
| "rank OpenTableFileParams = 2"
| "rank OpenAutoFileParams = 3"
| "rank _ = 1"

lemma rank_bases: "b \<in> set (bases s) \<Longrightarrow> rank b < rank s"
  by (cases s) auto

text \<open>
  The subobjects of an object of struct \<open>s\<close>. A subobject is named by its path: the
  structs from \<open>s\<close> down to the subobject's own struct. The order is that of construction:
  the base subobjects first, in the order of the base list, then the object itself.
\<close>

function subobjects :: "struct_name \<Rightarrow> struct_name list list" where
  "subobjects s = concat (map (\<lambda>b. map ((#) s) (subobjects b)) (bases s)) @ [[s]]"
  by pat_completeness auto
termination
  by (relation "measure rank") (auto simp: rank_bases)

declare subobjects.simps [simp del]

text \<open>
  Member name lookup in the scope of struct \<open>s\<close>: a member the struct declares itself hides
  those of its bases; otherwise the lookup collects what the lookups in the direct bases
  find. The result lists the subobjects that hold a member of that name.
\<close>

function lookup_member :: "struct_name \<Rightarrow> string \<Rightarrow> struct_name list list" where
  "lookup_member s n =
     (if n \<in> set (map fst (data_members s)) then [[s]]
      else concat (map (\<lambda>b. map ((#) s) (lookup_member b n)) (bases s)))"
  by pat_completeness auto
termination
  by (relation "measure (\<lambda>(s, n). rank s)") (auto simp: rank_bases)

declare lookup_member.simps [simp del]

text \<open>The base subobjects of struct \<open>b\<close> in an object of struct \<open>s\<close>.\<close>

definition base_paths :: "struct_name \<Rightarrow> struct_name \<Rightarrow> struct_name list list" where
  "base_paths s b = filter (\<lambda>p. last p = b) (subobjects s)"

text \<open>
  The qualified name \<open>b::n\<close> used on an object of struct \<open>s\<close>: the lookup of \<open>n\<close> in
  the scope of \<open>b\<close>, within each base subobject of struct \<open>b\<close>.
\<close>

definition qualified_lookup ::
  "struct_name \<Rightarrow> struct_name \<Rightarrow> string \<Rightarrow> struct_name list list" where
  "qualified_lookup s b n =
     concat (map (\<lambda>bp. map (\<lambda>q. butlast bp @ q) (lookup_member b n)) (base_paths s b))"

text \<open>
  A member access is well formed when the lookup finds the member in exactly one subobject;
  it is ill formed when the name is not found or is ambiguous.
\<close>

fun resolve :: "struct_name list list \<Rightarrow> struct_name list option" where
  "resolve [p] = Some p"
| "resolve ps = None"

text \<open>All data members of an object of struct \<open>s\<close>, each with the subobject that holds it.\<close>

definition members :: "struct_name \<Rightarrow> (struct_name list \<times> member_decl) list" where
  "members s = concat (map (\<lambda>p. map (Pair p) (data_members (last p))) (subobjects s))"

definition member_names :: "struct_name \<Rightarrow> string list" where
  "member_names s = map (\<lambda>(p, n, t, i). n) (members s)"

text \<open>
  The value of a member after default construction: its initializer if it has one; an empty
  \<open>String\<close>, an empty \<open>std::optional\<close>, an empty \<open>std::vector\<close>; indeterminate for a
  scalar without initializer.
\<close>

fun initial_value :: "cpp_type \<Rightarrow> cpp_value option \<Rightarrow> cpp_value" where
  "initial_value t (Some v) = v"
| "initial_value T_String None = V_String []"
| "initial_value (T_optional t) None = V_optional None"
| "initial_value (T_vector t) None = V_vector []"
| "initial_value t None = V_indeterminate"

text \<open>What a struct adds to its bases: its own members, with their values after construction.\<close>

definition added :: "struct_name \<Rightarrow> (string \<times> cpp_type \<times> cpp_value) list" where
  "added s = map (\<lambda>(n, t, i). (n, t, initial_value t i)) (data_members s)"

text \<open>
  An object: its dynamic type (the virtual destructor makes the structs polymorphic) and the
  values of its members, each found by the subobject that holds it and its name.
\<close>

record object =
  dyn_type :: struct_name
  slots :: "struct_name list \<times> string \<Rightarrow> cpp_value option"

definition construct :: "struct_name \<Rightarrow> object" where
  "construct s =
     \<lparr>dyn_type = s,
      slots = map_of (map (\<lambda>(p, n, t, i). ((p, n), initial_value t i)) (members s))\<rparr>"

definition get_member :: "object \<Rightarrow> struct_name list \<Rightarrow> string \<Rightarrow> cpp_value option" where
  "get_member obj p n = slots obj (p, n)"

definition set_member :: "object \<Rightarrow> struct_name list \<Rightarrow> string \<Rightarrow> cpp_value \<Rightarrow> object" where
  "set_member obj p n v = obj\<lparr>slots := (slots obj)((p, n) \<mapsto> v)\<rparr>"

text \<open>
  The three subobjects of an \<open>OpenAutoFileParams\<close> object that hold a member named
  \<open>m_strSaveAsPath\<close>: the \<open>OpenTextFileParams\<close> base reached through
  \<open>OpenTableFileParams\<close>, the \<open>OpenBinaryFileParams\<close> base and the
  \<open>OpenImageFileParams\<close> base.
\<close>

definition via_text :: "struct_name list" where
  "via_text = [OpenAutoFileParams, OpenTableFileParams, OpenTextFileParams]"

definition via_binary :: "struct_name list" where
  "via_binary = [OpenAutoFileParams, OpenBinaryFileParams]"

definition via_image :: "struct_name list" where
  "via_image = [OpenAutoFileParams, OpenImageFileParams]"

text \<open>
  An example object, written as the header's usage note writes it, with one output path for
  each of the three:
  \<^verbatim>\<open>
  OpenAutoFileParams params;
  params.OpenTextFileParams::m_strSaveAsPath = "merged.txt";
  params.OpenBinaryFileParams::m_strSaveAsPath = "merged.bin";
  params.OpenImageFileParams::m_strSaveAsPath = "merged.png";
  \<close>
\<close>

definition three_outputs :: object where
  "three_outputs =
     set_member (set_member (set_member (construct OpenAutoFileParams)
       via_text ''m_strSaveAsPath'' (V_String ''merged.txt''))
       via_binary ''m_strSaveAsPath'' (V_String ''merged.bin''))
       via_image ''m_strSaveAsPath'' (V_String ''merged.png'')"

section \<open>Comparison sessions and the lists that track them\<close>

text \<open>
  The header declares the open operations (\<open>DoFileOrFolderOpen\<close>, \<open>DoFileOpen\<close>,
  \<open>DoFileNew\<close>, \<open>DoOpenClipboard\<close>, \<open>DoSelfCompare\<close>, the \<open>Show...Doc\<close>
  operations) and the accessors of six lists of open documents and frames
  (\<open>GetAllOpenDocs\<close>, \<open>GetAllMergeDocs\<close>, \<open>GetAllDirDocs\<close>, \<open>GetAllHexMergeDocs\<close>,
  \<open>GetAllImgMergeFrames\<close>, \<open>GetAllWebPageDiffFrames\<close>). Their bodies are in
  \<open>MainFrm.cpp\<close>, which is not among the sources.
\<close>

text \<open>The document/view kinds the spec names, and the six lists the header names.\<close>

datatype doc_kind = Folder | Text | Table | Hex | Image | Web

datatype tracking_list =
    OpenDocList
  | MergeDocList
  | DirDocList
  | HexMergeDocList
  | ImgMergeFrames
  | WebPageDiffFrames

type_synonym doc_handle = nat
type_synonym PathContext = "string list"
type_synonym fileopenflags_t = "32 word"

text \<open>
  The frame's view of the sessions: the handles each list holds, and the handle the next
  document will get (a new document is an object of its own, distinct from all earlier ones).
\<close>

record session_state =
  tracked :: "tracking_list \<Rightarrow> doc_handle list"
  next_doc :: doc_handle

definition no_sessions :: session_state where
  "no_sessions = \<lparr>tracked = (\<lambda>l. []), next_doc = 0\<rparr>"

text \<open>
  Modelled from the spec: how the opener decides is in the bodies that are missing. The
  spec says that the pathway is "chosen by inspecting file/folder type and the
  \<open>OpenFileParams\<close> subtype supplied", that an inaccessible path or an unsupported type
  makes the operation fail, and that the document is registered in "its corresponding
  tracking list". Both choices are parameters here: \<open>decide\<close> gives the kind for a path
  set, flags and the subtype of the parameters (\<open>None\<close> for a null pointer), or no kind
  when the open fails; \<open>list_of\<close> gives the list that corresponds to a kind.
\<close>

record opener =
  decide :: "PathContext \<Rightarrow> fileopenflags_t list \<Rightarrow> struct_name option \<Rightarrow> doc_kind option"
  list_of :: "doc_kind \<Rightarrow> tracking_list"

text \<open>
  Modelled from the spec: the open pipeline, whose body is missing. "Given a path set,
  flags, and an \<open>OpenFileParams\<close> variant, decide which document/view kind to instantiate";
  "the session's document/view pairing, once created, is tracked in exactly one of the
  per-kind document lists until closed"; "on failure [...] the operation reports failure via
  a boolean result".
\<close>

definition open_session ::
  "opener \<Rightarrow> PathContext \<Rightarrow> fileopenflags_t list \<Rightarrow> struct_name option \<Rightarrow>
   session_state \<Rightarrow> bool \<times> session_state" where
  "open_session opn paths flags params st =
     (case decide opn paths flags params of
        None \<Rightarrow> (False, st)
      | Some k \<Rightarrow>
          (True,
           st\<lparr>tracked := (tracked st)(list_of opn k := tracked st (list_of opn k) @ [next_doc st]),
              next_doc := Suc (next_doc st)\<rparr>))"

text \<open>
  Modelled from the spec: closing a session, which the header does not declare. The spec
  says that the session is tracked "until closed": closing takes the document off the lists.
\<close>

definition close_session :: "doc_handle \<Rightarrow> session_state \<Rightarrow> session_state" where
  "close_session d st = st\<lparr>tracked := (\<lambda>l. removeAll d (tracked st l))\<rparr>"

text \<open>What happens to the frame over time: sessions are opened and closed.\<close>

datatype session_event =
    Open PathContext "fileopenflags_t list" "struct_name option"
  | Close doc_handle

fun step :: "opener \<Rightarrow> session_event \<Rightarrow> session_state \<Rightarrow> session_state" where
  "step opn (Open paths flags params) st = snd (open_session opn paths flags params st)"
| "step opn (Close d) st = close_session d st"

fun run :: "opener \<Rightarrow> session_event list \<Rightarrow> session_state \<Rightarrow> session_state" where
  "run opn [] st = st"
| "run opn (ev # evs) st = run opn evs (step opn ev st)"

text \<open>The lists that hold a document.\<close>

definition lists_holding :: "session_state \<Rightarrow> doc_handle \<Rightarrow> tracking_list list" where
  "lists_holding st d =
     filter (\<lambda>l. d \<in> set (tracked st l))
       [OpenDocList, MergeDocList, DirDocList, HexMergeDocList, ImgMergeFrames,
        WebPageDiffFrames]"

text \<open>Every handle on a list has been given out already.\<close>

definition handles_issued :: "session_state \<Rightarrow> bool" where
  "handles_issued st =
     list_all (\<lambda>l. list_all (\<lambda>d. d < next_doc st) (tracked st l))
       [OpenDocList, MergeDocList, DirDocList, HexMergeDocList, ImgMergeFrames,
        WebPageDiffFrames]"

text \<open>How often a document stands on the six lists, all taken together.\<close>

definition registrations :: "session_state \<Rightarrow> doc_handle \<Rightarrow> nat" where
  "registrations st d =
     count_list (tracked st OpenDocList) d + count_list (tracked st MergeDocList) d +
     count_list (tracked st DirDocList) d + count_list (tracked st HexMergeDocList) d +
     count_list (tracked st ImgMergeFrames) d + count_list (tracked st WebPageDiffFrames) d"

text \<open>No document stands on the lists more than once, and none before it exists.\<close>

definition registered_once :: "session_state \<Rightarrow> bool" where
  "registered_once st = (handles_issued st \<and> (\<forall>d. registrations st d \<le> 1))"

text \<open>
  An example opener: two or three paths are needed; binary parameters open a hex
  comparison, image parameters an image comparison, and nothing else is supported.
\<close>

definition hex_and_image_opener :: opener where
  "hex_and_image_opener =
     \<lparr>decide = (\<lambda>paths flags params.
         if length paths = 2 \<or> length paths = 3
         then (case params of
                 Some OpenBinaryFileParams \<Rightarrow> Some Hex
               | Some OpenImageFileParams \<Rightarrow> Some Image
               | _ \<Rightarrow> None)
         else None),
      list_of = (\<lambda>k. case k of
                   Folder \<Rightarrow> DirDocList
                 | Hex \<Rightarrow> HexMergeDocList
                 | Image \<Rightarrow> ImgMergeFrames
                 | Web \<Rightarrow> WebPageDiffFrames
                 | _ \<Rightarrow> MergeDocList)\<rparr>"

section \<open>Redrawing is switched off only for a moment\<close>

lemmas message_defs = WM_TIMER_def WM_MDICREATE_def WM_MDIACTIVATE_def WM_MDISETMENU_def

lemmas toolkit_defs = do_SendMessage_def do_SetTimer_def do_KillTimer_def do_SetRedraw_def
  do_RedrawWindow_def do_SetMenuBarState_def do_AttachMenu_def CWnd_WindowProc_def log_call_def

lemma WindowProc_redraw_timer:
  "WindowProc e WM_TIMER m_nRedrawTimer lParam w =
     (base_result e,
      w\<lparr>redraw_enabled := True, timers := timers w - {m_nRedrawTimer},
        calls := calls w @ [Call_KillTimer m_nRedrawTimer, Call_SetRedraw True,
                 Call_RedrawWindow (RDW_ALLCHILDREN OR RDW_INVALIDATE),
                 Call_CWnd_WindowProc WM_TIMER m_nRedrawTimer lParam]\<rparr>)"
  by (simp add: WindowProc_def message_defs toolkit_defs)

lemma WindowProc_guarded:
  "redraw_guarded w \<Longrightarrow> redraw_guarded (snd (WindowProc e message wParam lParam w))"
  by (auto simp: WindowProc_def redraw_guarded_def toolkit_defs Let_def split: if_splits)

lemma deliver_guarded: "redraw_guarded w \<Longrightarrow> redraw_guarded (deliver ds w)"
  by (induction ds arbitrary: w) (auto simp: WindowProc_guarded)

lemma deliver_append: "deliver (ds @ ds') w = deliver ds' (deliver ds w)"
  by (induction ds arbitrary: w) auto

lemma SetRedraw_off_needs_timer:
  assumes "Call_SetRedraw False \<in> set (calls_made e message wParam lParam w)"
  shows "(message = WM_MDICREATE \<or> message = WM_MDIACTIVATE) \<and> SetTimer_result e \<noteq> 0 \<and>
         calls_made e message wParam lParam w =
           [Call_SendMessage WM_MDIGETACTIVE 0, Call_SetTimer m_nRedrawTimer USER_TIMER_MINIMUM,
            Call_SetRedraw False, Call_CWnd_WindowProc message wParam lParam] \<and>
         m_nRedrawTimer \<in> timers (snd (WindowProc e message wParam lParam w))"
  using assms
  by (auto simp: calls_made_def WindowProc_def toolkit_defs Let_def split: if_splits)

text \<open>
  Claim C10. In \<open>CMDIClient::WindowProc\<close> the state in which redrawing is switched off is
  transient. Whatever the message, \<open>SetRedraw(FALSE)\<close> is among the calls of a run only
  when the message is \<open>WM_MDICREATE\<close> or \<open>WM_MDIACTIVATE\<close> and \<open>SetTimer\<close> for the
  redraw timer (1612) succeeded: the call follows that of \<open>SetTimer\<close>, and the timer
  is running afterwards. A \<open>WM_TIMER\<close> message for that timer makes the procedure kill
  the timer, call \<open>SetRedraw(TRUE)\<close>, redraw the window with all its children and pass
  the message on to the base class, in this order; after it redrawing is on and the timer
  is gone. Hence, after any sequence of messages delivered to a new window, redrawing is off
  only while the redraw timer is running, and the delivery of that timer's message switches
  it on again.
\<close>

theorem redraw_disabled_is_transient:
  "(Call_SetRedraw False \<in> set (calls_made e message wParam lParam w) \<longrightarrow>
      (message = WM_MDICREATE \<or> message = WM_MDIACTIVATE) \<and> SetTimer_result e \<noteq> 0 \<and>
      calls_made e message wParam lParam w =
        [Call_SendMessage WM_MDIGETACTIVE 0, Call_SetTimer m_nRedrawTimer USER_TIMER_MINIMUM,
         Call_SetRedraw False, Call_CWnd_WindowProc message wParam lParam] \<and>
      m_nRedrawTimer \<in> timers (snd (WindowProc e message wParam lParam w))) \<and>
   calls_made e WM_TIMER m_nRedrawTimer lParam w =
     [Call_KillTimer m_nRedrawTimer, Call_SetRedraw True,
      Call_RedrawWindow (RDW_ALLCHILDREN OR RDW_INVALIDATE),
      Call_CWnd_WindowProc WM_TIMER m_nRedrawTimer lParam] \<and>
   redraw_enabled (snd (WindowProc e WM_TIMER m_nRedrawTimer lParam w)) \<and>
   m_nRedrawTimer \<notin> timers (snd (WindowProc e WM_TIMER m_nRedrawTimer lParam w)) \<and>
   redraw_guarded (deliver ds new_client) \<and>
   redraw_enabled (deliver (ds @ [(e, WM_TIMER, m_nRedrawTimer, lParam)]) new_client)"
proof -
  have guarded: "redraw_guarded (deliver ds new_client)"
    by (rule deliver_guarded) (simp add: redraw_guarded_def new_client_def)
  have timer: "calls_made e WM_TIMER m_nRedrawTimer lParam w =
     [Call_KillTimer m_nRedrawTimer, Call_SetRedraw True,
      Call_RedrawWindow (RDW_ALLCHILDREN OR RDW_INVALIDATE),
      Call_CWnd_WindowProc WM_TIMER m_nRedrawTimer lParam]"
    by (simp add: calls_made_def WindowProc_redraw_timer)
  show ?thesis
    using guarded timer SetRedraw_off_needs_timer [of e message wParam lParam w]
    by (simp add: WindowProc_redraw_timer deliver_append)
qed

text \<open>
  The theorem at work: a child window is activated while the active child is maximized and
  the timer can be created. Redrawing is off after the activation and on again after the
  timer message.
\<close>

theorem redraw_disabled_is_transient_witness:
  "Call_SetRedraw False \<in> set (calls_made maximized_env WM_MDIACTIVATE 0 0 new_client) \<and>
   SetTimer_result maximized_env \<noteq> 0 \<and>
   m_nRedrawTimer \<in> timers (snd (WindowProc maximized_env WM_MDIACTIVATE 0 0 new_client)) \<and>
   \<not> redraw_enabled (deliver [(maximized_env, WM_MDIACTIVATE, 0, 0)] new_client) \<and>
   redraw_enabled (deliver ([(maximized_env, WM_MDIACTIVATE, 0, 0)] @
      [(maximized_env, WM_TIMER, m_nRedrawTimer, 0)]) new_client)"
proof -
  have off: "Call_SetRedraw False \<in> set (calls_made maximized_env WM_MDIACTIVATE 0 0 new_client)"
    by (simp add: calls_made_def WindowProc_def toolkit_defs message_defs maximized_env_def
        new_client_def)
  have now_off: "\<not> redraw_enabled (deliver [(maximized_env, WM_MDIACTIVATE, 0, 0)] new_client)"
    by (simp add: WindowProc_def toolkit_defs message_defs maximized_env_def new_client_def)
  show ?thesis
    using off now_off
      redraw_disabled_is_transient [of maximized_env WM_MDIACTIVATE 0 0 new_client
        "[(maximized_env, WM_MDIACTIVATE, 0, 0)]"]
    by blast
qed

section \<open>What the parameter bundles carry\<close>

lemmas subobjects_at =
  subobjects.simps [of OpenFileParams] subobjects.simps [of OpenTextFileParams]
  subobjects.simps [of OpenTableFileParams] subobjects.simps [of OpenBinaryFileParams]
  subobjects.simps [of OpenImageFileParams] subobjects.simps [of OpenWebPageParams]
  subobjects.simps [of OpenAutoFileParams] subobjects.simps [of OpenFolderParams]

lemmas lookup_member_at =
  lookup_member.simps [of OpenFileParams] lookup_member.simps [of OpenTextFileParams]
  lookup_member.simps [of OpenTableFileParams] lookup_member.simps [of OpenBinaryFileParams]
  lookup_member.simps [of OpenImageFileParams] lookup_member.simps [of OpenWebPageParams]
  lookup_member.simps [of OpenAutoFileParams] lookup_member.simps [of OpenFolderParams]

lemma has_virtual_destructor_all: "has_virtual_destructor s"
  by (cases s) simp_all

lemma subobjects_OpenAutoFileParams:
  "subobjects OpenAutoFileParams =
     [[OpenAutoFileParams, OpenTableFileParams, OpenTextFileParams, OpenFileParams],
      [OpenAutoFileParams, OpenTableFileParams, OpenTextFileParams],
      [OpenAutoFileParams, OpenTableFileParams],
      [OpenAutoFileParams, OpenBinaryFileParams, OpenFileParams],
      [OpenAutoFileParams, OpenBinaryFileParams],
      [OpenAutoFileParams, OpenImageFileParams, OpenFileParams],
      [OpenAutoFileParams, OpenImageFileParams],
      [OpenAutoFileParams]]"
  by (simp add: subobjects_at)

lemma lookup_save_as_path:
  "lookup_member OpenAutoFileParams ''m_strSaveAsPath'' = [via_text, via_binary, via_image]"
  by (simp add: lookup_member_at via_text_def via_binary_def via_image_def)

lemma via_distinct:
  "via_text \<noteq> via_binary" "via_text \<noteq> via_image" "via_binary \<noteq> via_image"
  by (simp_all add: via_text_def via_binary_def via_image_def)

text \<open>
  Claim C5. The \<open>OpenFileParams\<close> family is a tagged hierarchy of configuration bundles
  (every struct is polymorphic, and an object knows the struct it was constructed as) in
  which each variant carries its kind's options. The common base \<open>OpenFileParams\<close> has no
  members. \<open>OpenTableFileParams\<close> adds to \<open>OpenTextFileParams\<close> an optional field
  delimiter, an optional quote character and an optional newlines-in-quotes policy, all
  empty by default. \<open>OpenBinaryFileParams\<close> adds a start offset with default -1 and a
  save-as path; \<open>OpenImageFileParams\<close> adds the coordinates \<open>m_x\<close> and \<open>m_y\<close> with
  default -1 and a save-as path; \<open>OpenWebPageParams\<close> adds nothing;
  \<open>OpenFolderParams\<close> adds a list of hidden items. Apart from what
  \<open>OpenTableFileParams\<close> inherits from \<open>OpenTextFileParams\<close>, these are all the
  members of the five bundles.
\<close>

theorem open_params_variants_carry_their_options:
  "has_virtual_destructor s \<and> dyn_type (construct s) = s \<and>
   members OpenFileParams = [] \<and>
   bases OpenTableFileParams = [OpenTextFileParams] \<and>
   added OpenTableFileParams =
     [(''m_tableDelimiter'', T_optional T_tchar, V_optional None),
      (''m_tableQuote'', T_optional T_tchar, V_optional None),
      (''m_tableAllowNewlinesInQuotes'', T_optional T_bool, V_optional None)] \<and>
   member_names OpenTableFileParams = member_names OpenTextFileParams @
     [''m_tableDelimiter'', ''m_tableQuote'', ''m_tableAllowNewlinesInQuotes''] \<and>
   bases OpenBinaryFileParams = [OpenFileParams] \<and>
   added OpenBinaryFileParams =
     [(''m_address'', T_int, V_int (- 1)), (''m_strSaveAsPath'', T_String, V_String [])] \<and>
   member_names OpenBinaryFileParams = [''m_address'', ''m_strSaveAsPath''] \<and>
   bases OpenImageFileParams = [OpenFileParams] \<and>
   added OpenImageFileParams =
     [(''m_x'', T_int, V_int (- 1)), (''m_y'', T_int, V_int (- 1)),
      (''m_strSaveAsPath'', T_String, V_String [])] \<and>
   member_names OpenImageFileParams = [''m_x'', ''m_y'', ''m_strSaveAsPath''] \<and>
   bases OpenWebPageParams = [OpenFileParams] \<and>
   added OpenWebPageParams = [] \<and>
   member_names OpenWebPageParams = [] \<and>
   bases OpenFolderParams = [OpenFileParams] \<and>
   added OpenFolderParams = [(''m_hiddenItems'', T_vector T_String, V_vector [])] \<and>
   member_names OpenFolderParams = [''m_hiddenItems''] \<and>
   get_member (construct OpenBinaryFileParams) [OpenBinaryFileParams] ''m_address''
     = Some (V_int (- 1)) \<and>
   get_member (construct OpenImageFileParams) [OpenImageFileParams] ''m_x''
     = Some (V_int (- 1)) \<and>
   get_member (construct OpenImageFileParams) [OpenImageFileParams] ''m_y''
     = Some (V_int (- 1)) \<and>
   sint (- 1 :: 32 word) = - 1"
  by (simp add: has_virtual_destructor_all construct_def added_def member_names_def members_def
      subobjects_at get_member_def)

text \<open>
  Claim C6. The claim, like the header's own note on \<open>OpenBinaryFileParams::m_strSaveAsPath\<close>
  (text and table files need no output path, so the member "is not introduced in the other
  FileParams structs"), gives an \<open>OpenAutoFileParams\<close> object two members named
  \<open>m_strSaveAsPath\<close>, that of the \<open>OpenBinaryFileParams\<close> and that of the
  \<open>OpenImageFileParams\<close> base. The declarations give it three:
  \<open>OpenTextFileParams\<close> declares one as well, and it comes in through
  \<open>OpenTableFileParams\<close>. Member lookup finds three subobjects, and in the example
  object the three hold three different paths.
\<close>

theorem auto_params_third_save_as_path:
  "length (lookup_member OpenAutoFileParams ''m_strSaveAsPath'') = 3 \<and>
   lookup_member OpenAutoFileParams ''m_strSaveAsPath'' \<noteq> [via_binary, via_image] \<and>
   via_text \<noteq> via_binary \<and> via_text \<noteq> via_image \<and>
   get_member three_outputs via_text ''m_strSaveAsPath'' = Some (V_String ''merged.txt'') \<and>
   get_member three_outputs via_binary ''m_strSaveAsPath'' = Some (V_String ''merged.bin'') \<and>
   get_member three_outputs via_image ''m_strSaveAsPath'' = Some (V_String ''merged.png'')"
  using via_distinct
  by (simp add: lookup_save_as_path three_outputs_def get_member_def set_member_def)

text \<open>
  The hierarchy below \<open>OpenAutoFileParams\<close> and the lookup of \<open>m_strSaveAsPath\<close>
  in full. \<open>OpenAutoFileParams\<close> inherits from \<open>OpenTableFileParams\<close>,
  \<open>OpenBinaryFileParams\<close> and \<open>OpenImageFileParams\<close>, which all derive from
  \<open>OpenFileParams\<close>. The unqualified name is ambiguous; qualified with a base it names
  exactly one member. Each member is empty after construction, and setting one of them sets
  that one and leaves the others as they were.
\<close>

lemma auto_params_save_as_path_lookup:
  "bases OpenAutoFileParams = [OpenTableFileParams, OpenBinaryFileParams, OpenImageFileParams] \<and>
   base_paths OpenAutoFileParams OpenFileParams =
     [[OpenAutoFileParams, OpenTableFileParams, OpenTextFileParams, OpenFileParams],
      [OpenAutoFileParams, OpenBinaryFileParams, OpenFileParams],
      [OpenAutoFileParams, OpenImageFileParams, OpenFileParams]] \<and>
   lookup_member OpenAutoFileParams ''m_strSaveAsPath'' = [via_text, via_binary, via_image] \<and>
   resolve (lookup_member OpenAutoFileParams ''m_strSaveAsPath'') = None \<and>
   resolve (qualified_lookup OpenAutoFileParams OpenTextFileParams ''m_strSaveAsPath'')
     = Some via_text \<and>
   resolve (qualified_lookup OpenAutoFileParams OpenTableFileParams ''m_strSaveAsPath'')
     = Some via_text \<and>
   resolve (qualified_lookup OpenAutoFileParams OpenBinaryFileParams ''m_strSaveAsPath'')
     = Some via_binary \<and>
   resolve (qualified_lookup OpenAutoFileParams OpenImageFileParams ''m_strSaveAsPath'')
     = Some via_image \<and>
   get_member (construct OpenAutoFileParams) via_text ''m_strSaveAsPath'' = Some (V_String []) \<and>
   get_member (construct OpenAutoFileParams) via_binary ''m_strSaveAsPath'' = Some (V_String []) \<and>
   get_member (construct OpenAutoFileParams) via_image ''m_strSaveAsPath'' = Some (V_String []) \<and>
   get_member (set_member obj via_text ''m_strSaveAsPath'' v) via_text ''m_strSaveAsPath''
     = Some v \<and>
   get_member (set_member obj via_text ''m_strSaveAsPath'' v) via_binary ''m_strSaveAsPath''
     = get_member obj via_binary ''m_strSaveAsPath'' \<and>
   get_member (set_member obj via_text ''m_strSaveAsPath'' v) via_image ''m_strSaveAsPath''
     = get_member obj via_image ''m_strSaveAsPath'' \<and>
   get_member (set_member obj via_binary ''m_strSaveAsPath'' v) via_binary ''m_strSaveAsPath''
     = Some v \<and>
   get_member (set_member obj via_binary ''m_strSaveAsPath'' v) via_text ''m_strSaveAsPath''
     = get_member obj via_text ''m_strSaveAsPath'' \<and>
   get_member (set_member obj via_binary ''m_strSaveAsPath'' v) via_image ''m_strSaveAsPath''
     = get_member obj via_image ''m_strSaveAsPath'' \<and>
   get_member (set_member obj via_image ''m_strSaveAsPath'' v) via_image ''m_strSaveAsPath''
     = Some v \<and>
   get_member (set_member obj via_image ''m_strSaveAsPath'' v) via_text ''m_strSaveAsPath''
     = get_member obj via_text ''m_strSaveAsPath'' \<and>
   get_member (set_member obj via_image ''m_strSaveAsPath'' v) via_binary ''m_strSaveAsPath''
     = get_member obj via_binary ''m_strSaveAsPath''"
proof -
  have hierarchy:
    "bases OpenAutoFileParams = [OpenTableFileParams, OpenBinaryFileParams, OpenImageFileParams]"
    "base_paths OpenAutoFileParams OpenFileParams =
     [[OpenAutoFileParams, OpenTableFileParams, OpenTextFileParams, OpenFileParams],
      [OpenAutoFileParams, OpenBinaryFileParams, OpenFileParams],
      [OpenAutoFileParams, OpenImageFileParams, OpenFileParams]]"
    by (simp_all add: base_paths_def subobjects_OpenAutoFileParams)
  have by_base:
    "resolve (qualified_lookup OpenAutoFileParams OpenTextFileParams ''m_strSaveAsPath'')
       = Some via_text"
    "resolve (qualified_lookup OpenAutoFileParams OpenTableFileParams ''m_strSaveAsPath'')
       = Some via_text"
    "resolve (qualified_lookup OpenAutoFileParams OpenBinaryFileParams ''m_strSaveAsPath'')
       = Some via_binary"
    "resolve (qualified_lookup OpenAutoFileParams OpenImageFileParams ''m_strSaveAsPath'')
       = Some via_image"
    by (simp_all add: qualified_lookup_def base_paths_def subobjects_OpenAutoFileParams
        lookup_member_at via_text_def via_binary_def via_image_def)
  have constructed:
    "get_member (construct OpenAutoFileParams) via_text ''m_strSaveAsPath'' = Some (V_String [])"
    "get_member (construct OpenAutoFileParams) via_binary ''m_strSaveAsPath'' = Some (V_String [])"
    "get_member (construct OpenAutoFileParams) via_image ''m_strSaveAsPath'' = Some (V_String [])"
    by (simp_all add: get_member_def construct_def members_def subobjects_OpenAutoFileParams
        via_text_def via_binary_def via_image_def)
  have written:
    "\<And>p. get_member (set_member obj p ''m_strSaveAsPath'' v) p ''m_strSaveAsPath'' = Some v"
    by (simp add: get_member_def set_member_def)
  have untouched: "\<And>p q. p \<noteq> q \<Longrightarrow>
      get_member (set_member obj p ''m_strSaveAsPath'' v) q ''m_strSaveAsPath''
        = get_member obj q ''m_strSaveAsPath''"
    by (simp add: get_member_def set_member_def)
  show ?thesis
    using via_distinct
    by (simp add: hierarchy(2) by_base constructed lookup_save_as_path written untouched
        via_distinct [symmetric])
qed

section \<open>A session is tracked by one list until it is closed\<close>

lemma every_tracking_list:
  "l \<in> set [OpenDocList, MergeDocList, DirDocList, HexMergeDocList, ImgMergeFrames,
     WebPageDiffFrames]"
  by (cases l) auto

lemma handles_issued_iff:
  "handles_issued st \<longleftrightarrow> (\<forall>l. \<forall>d \<in> set (tracked st l). d < next_doc st)"
  unfolding handles_issued_def list_all_iff using every_tracking_list by blast

lemma step_issued:
  assumes "handles_issued st"
  shows "handles_issued (step opn ev st)"
proof (cases ev)
  case (Open paths flags params)
  have old: "\<And>l d. d \<in> set (tracked st l) \<Longrightarrow> d < next_doc st"
    using assms by (simp add: handles_issued_iff)
  then have "\<And>l d. d \<in> set (tracked st l) \<Longrightarrow> d < Suc (next_doc st)"
    by (simp add: less_SucI)
  then show ?thesis
    using Open old by (auto simp: handles_issued_iff open_session_def split: option.splits)
next
  case (Close d)
  then show ?thesis
    using assms by (auto simp: handles_issued_iff close_session_def)
qed

lemma step_next_doc: "next_doc st \<le> next_doc (step opn ev st)"
  by (cases ev) (auto simp: open_session_def close_session_def split: option.splits)

lemma run_issued: "handles_issued st \<Longrightarrow> handles_issued (run opn evs st)"
  by (induction evs arbitrary: st) (auto simp: step_issued)

lemma count_removeAll_other: "x \<noteq> d \<Longrightarrow> count_list (removeAll x xs) d = count_list xs d"
  by (induction xs) auto

lemma step_count:
  assumes "d < next_doc st" "ev \<noteq> Close d"
  shows "count_list (tracked (step opn ev st) l) d = count_list (tracked st l) d"
proof (cases ev)
  case (Open paths flags params)
  have "next_doc st \<noteq> d" using assms(1) by simp
  then show ?thesis
    using Open by (auto simp: open_session_def split: option.splits)
next
  case (Close x)
  then have "x \<noteq> d" using assms(2) by simp
  then show ?thesis
    using Close by (simp add: close_session_def count_removeAll_other)
qed

lemma run_count:
  "d < next_doc st \<Longrightarrow> Close d \<notin> set evs \<Longrightarrow>
   count_list (tracked (run opn evs st) l) d = count_list (tracked st l) d"
proof (induction evs arbitrary: st)
  case Nil
  then show ?case by simp
next
  case (Cons ev evs)
  have lt: "d < next_doc (step opn ev st)"
    using Cons.prems(1) step_next_doc [of st opn ev] by simp
  have ne: "ev \<noteq> Close d" and rest: "Close d \<notin> set evs"
    using Cons.prems(2) by auto
  have "count_list (tracked (run opn evs (step opn ev st)) l) d =
        count_list (tracked (step opn ev st) l) d"
    using Cons.IH [OF lt rest] .
  also have "\<dots> = count_list (tracked st l) d"
    using step_count [OF Cons.prems(1) ne] .
  finally show ?case by simp
qed

lemma count_next_doc: "handles_issued st \<Longrightarrow> count_list (tracked st l) (next_doc st) = 0"
  by (auto simp: handles_issued_iff count_list_0_iff)

lemma open_session_count:
  assumes "handles_issued st" "open_session opn paths flags params st = (True, st')"
  shows "\<exists>k. decide opn paths flags params = Some k \<and>
     (\<forall>l. count_list (tracked st' l) (next_doc st) = (if l = list_of opn k then 1 else 0))"
  using assms count_next_doc [of st]
  by (auto simp: open_session_def split: option.splits)

lemma lists_holding_closed: "lists_holding (close_session d st) d = []"
  by (simp add: lists_holding_def close_session_def)

lemma registrations_open:
  assumes "open_session opn paths flags params st = (True, st')"
  shows "registrations st' d = registrations st d + (if d = next_doc st then 1 else 0)"
proof -
  obtain k where k: "decide opn paths flags params = Some k"
    using assms by (auto simp: open_session_def split: option.splits)
  then have st': "st' = st\<lparr>tracked := (tracked st)(list_of opn k := tracked st (list_of opn k) @ [next_doc st]),
              next_doc := Suc (next_doc st)\<rparr>"
    using assms by (simp add: open_session_def)
  show ?thesis
    unfolding st' registrations_def by (cases "list_of opn k") simp_all
qed

lemma count_removeAll_le: "count_list (removeAll x xs) d \<le> count_list xs d"
  by (induction xs) auto

lemma registrations_close: "registrations (close_session x st) d \<le> registrations st d"
  unfolding registrations_def close_session_def
  by (simp add: add_mono count_removeAll_le)

lemma registrations_fresh:
  assumes "handles_issued st" "next_doc st \<le> d"
  shows "registrations st d = 0"
proof -
  have "\<And>l. d \<notin> set (tracked st l)"
  proof
    fix l
    assume "d \<in> set (tracked st l)"
    then have "d < next_doc st"
      using assms(1) by (simp add: handles_issued_iff)
    then show False using assms(2) by simp
  qed
  then have "\<And>l. count_list (tracked st l) d = 0"
    by (simp add: count_list_0_iff)
  then show ?thesis by (simp add: registrations_def)
qed

lemma step_registered_once:
  assumes "registered_once st"
  shows "registered_once (step opn ev st)"
proof (cases ev)
  case (Open paths flags params)
  show ?thesis
  proof (cases "decide opn paths flags params")
    case None
    then show ?thesis using assms Open by (simp add: open_session_def)
  next
    case (Some k)
    then have op: "open_session opn paths flags params st = (True, snd (open_session opn paths flags params st))"
      by (simp add: open_session_def)
    have "\<And>d. registrations (step opn ev st) d \<le> 1"
    proof -
      fix d
      show "registrations (step opn ev st) d \<le> 1"
      proof (cases "d = next_doc st")
        case True
        then have "registrations st d = 0"
          using assms registrations_fresh [of st d] by (simp add: registered_once_def)
        then show ?thesis
          using registrations_open [OF op, of d] True Open by simp
      next
        case False
        then show ?thesis
          using registrations_open [OF op, of d] Open assms by (simp add: registered_once_def)
      qed
    qed
    then show ?thesis
      using step_issued [of st opn ev] assms by (simp add: registered_once_def)
  qed
next
  case (Close x)
  have "\<And>d. registrations (step opn ev st) d \<le> 1"
    using registrations_close [of x st] assms Close
    by (metis le_trans registered_once_def step.simps(2))
  then show ?thesis
    using step_issued [of st opn ev] assms by (simp add: registered_once_def)
qed

lemma run_registered_once: "registered_once st \<Longrightarrow> registered_once (run opn evs st)"
  by (induction evs arbitrary: st) (auto simp: step_registered_once)

lemma registered_once_no_sessions: "registered_once no_sessions"
  by (simp add: registered_once_def handles_issued_def registrations_def no_sessions_def)

text \<open>
  Claim C1. Take any state the frame has reached by opening and closing sessions, and a call
  of the open pipeline in it that succeeds. Then the opener has decided on exactly one
  document kind and the call has created exactly one document: one handle has been given
  out, the list that corresponds to the kind has gained that handle at its end, and every
  other list is as it was. The new document stood on no list before; the call has raised
  the number of its registrations to one and left that of every other document alone.
  Whatever sessions are opened and closed afterwards, as long as the new document is not
  closed itself it stays on that list and on no other, exactly once, and no document ever
  stands on the lists more than once. Closing it takes it off the lists.
\<close>

theorem open_registers_in_exactly_one_list:
  assumes "st = run opn before no_sessions"
    and "open_session opn paths flags params st = (True, st')"
    and "Close (next_doc st) \<notin> set later"
  shows "\<exists>k. decide opn paths flags params = Some k \<and>
           next_doc st' = Suc (next_doc st) \<and>
           tracked st' = (tracked st)(list_of opn k := tracked st (list_of opn k) @ [next_doc st]) \<and>
           registrations st (next_doc st) = 0 \<and>
           (\<forall>d. registrations st' d = registrations st d + (if d = next_doc st then 1 else 0)) \<and>
           lists_holding (run opn later st') (next_doc st) = [list_of opn k] \<and>
           count_list (tracked (run opn later st') (list_of opn k)) (next_doc st) = 1 \<and>
           registrations (run opn later st') (next_doc st) = 1 \<and>
           (\<forall>d. registrations (run opn later st') d \<le> 1) \<and>
           lists_holding (close_session (next_doc st) (run opn later st')) (next_doc st) = []"
proof -
  have once: "registered_once st"
    unfolding assms(1) by (rule run_registered_once) (rule registered_once_no_sessions)
  then have issued: "handles_issued st"
    by (simp add: registered_once_def)
  have next': "next_doc st < next_doc st'"
    using assms(2) by (auto simp: open_session_def split: option.splits)
  obtain k where k: "decide opn paths flags params = Some k"
    and cnt: "\<And>l. count_list (tracked st' l) (next_doc st) = (if l = list_of opn k then 1 else 0)"
    using open_session_count [OF issued assms(2)] by blast
  have st': "st' = st\<lparr>tracked := (tracked st)(list_of opn k := tracked st (list_of opn k) @ [next_doc st]),
              next_doc := Suc (next_doc st)\<rparr>"
    using assms(2) k by (simp add: open_session_def)
  have later: "\<And>l. count_list (tracked (run opn later st') l) (next_doc st) =
      (if l = list_of opn k then 1 else 0)"
    using run_count [OF next' assms(3)] cnt by simp
  then have mem: "\<And>l. (next_doc st \<in> set (tracked (run opn later st') l)) = (l = list_of opn k)"
    by (metis count_list_0_iff zero_neq_one)
  have holding: "lists_holding (run opn later st') (next_doc st) = [list_of opn k]"
    unfolding lists_holding_def mem by (cases "list_of opn k") simp_all
  have reg1: "registrations (run opn later st') (next_doc st) = 1"
    unfolding registrations_def later by (cases "list_of opn k") simp_all
  have "registered_once st'"
    using step_registered_once [OF once, of opn "Open paths flags params"] assms(2) by simp
  then have all1: "\<forall>d. registrations (run opn later st') d \<le> 1"
    using run_registered_once [of st' opn later] by (simp add: registered_once_def)
  have fresh: "registrations st (next_doc st) = 0"
    using registrations_fresh [OF issued] by simp
  show ?thesis
    using k holding later reg1 all1 fresh registrations_open [OF assms(2)]
    by (simp add: lists_holding_closed st')
qed

text \<open>
  The theorem at work, with the example opener: an image comparison is open (document 0); a
  hex comparison of two files is opened and becomes document 1 on the list of hex documents;
  then the image comparison is closed and another one is opened. Document 1 is still on the
  list of hex documents, and on no other.
\<close>

theorem open_registers_in_exactly_one_list_witness:
  "open_session hex_and_image_opener [''left.bin'', ''right.bin''] [0, 0] (Some OpenBinaryFileParams)
     (run hex_and_image_opener [Open [''a.png'', ''b.png''] [0, 0] (Some OpenImageFileParams)] no_sessions)
     = (True, \<lparr>tracked = (\<lambda>l. [])(ImgMergeFrames := [0], HexMergeDocList := [1]), next_doc = 2\<rparr>) \<and>
   Close 1 \<notin> set [Close 0, Open [''x'', ''y'', ''z''] [0, 0, 0] (Some OpenImageFileParams)] \<and>
   decide hex_and_image_opener [''left.bin'', ''right.bin''] [0, 0] (Some OpenBinaryFileParams) = Some Hex \<and>
   lists_holding
     (run hex_and_image_opener [Close 0, Open [''x'', ''y'', ''z''] [0, 0, 0] (Some OpenImageFileParams)]
        \<lparr>tracked = (\<lambda>l. [])(ImgMergeFrames := [0], HexMergeDocList := [1]), next_doc = 2\<rparr>) 1
     = [HexMergeDocList] \<and>
   registrations
     (run hex_and_image_opener [Close 0, Open [''x'', ''y'', ''z''] [0, 0, 0] (Some OpenImageFileParams)]
        \<lparr>tracked = (\<lambda>l. [])(ImgMergeFrames := [0], HexMergeDocList := [1]), next_doc = 2\<rparr>) 1
     = 1"
proof -
  let ?before = "[Open [''a.png'', ''b.png''] [0, 0] (Some OpenImageFileParams)]"
  let ?later = "[Close 0, Open [''x'', ''y'', ''z''] [0, 0, 0] (Some OpenImageFileParams)]"
  let ?st' = "\<lparr>tracked = (\<lambda>l. [])(ImgMergeFrames := [0], HexMergeDocList := [1]), next_doc = 2\<rparr>"
  have nd: "next_doc (run hex_and_image_opener ?before no_sessions) = 1"
    by (simp add: open_session_def hex_and_image_opener_def no_sessions_def)
  have opened: "open_session hex_and_image_opener [''left.bin'', ''right.bin''] [0, 0]
      (Some OpenBinaryFileParams) (run hex_and_image_opener ?before no_sessions) = (True, ?st')"
    by (simp add: open_session_def hex_and_image_opener_def no_sessions_def fun_eq_iff)
  have not_closed: "Close (next_doc (run hex_and_image_opener ?before no_sessions)) \<notin> set ?later"
    unfolding nd by simp
  have dec: "decide hex_and_image_opener [''left.bin'', ''right.bin''] [0, 0] (Some OpenBinaryFileParams) = Some Hex"
    by (simp add: hex_and_image_opener_def)
  have lo: "list_of hex_and_image_opener Hex = HexMergeDocList"
    by (simp add: hex_and_image_opener_def)
  obtain k where k: "decide hex_and_image_opener [''left.bin'', ''right.bin''] [0, 0]
        (Some OpenBinaryFileParams) = Some k"
    and held: "lists_holding (run hex_and_image_opener ?later ?st')
        (next_doc (run hex_and_image_opener ?before no_sessions)) = [list_of hex_and_image_opener k]"
    and once: "registrations (run hex_and_image_opener ?later ?st')
        (next_doc (run hex_and_image_opener ?before no_sessions)) = 1"
    using open_registers_in_exactly_one_list [OF refl opened not_closed] by blast
  have "k = Hex" using k dec by simp
  then show ?thesis
    using opened dec lo held once unfolding nd by simp
qed

end
